theory Spec2Isabelle
  imports Main "HOL-Library.Word" "HOL-Library.List_Lexorder" "HOL-Library.AList"
begin

unbundle bit_operations_syntax

section \<open>Common types\<close>

text \<open>
  A \<open>Ts\<close> is Go's \<open>uint64\<close>. A \<open>time.Time\<close> is an instant counted in nanoseconds, a
  \<open>time.Duration\<close> is the value of an \<open>int64\<close> counting nanoseconds. Every reading of
  the wall clock (\<open>time.Now()\<close>, \<open>time.Since\<close>, \<open>pdClock.CurrentTime()\<close>) is an
  argument of the function that takes the reading, in program order.
\<close>

type_synonym Ts = "64 word"
type_synonym Time = int
type_synonym Duration = int

definition maxDuration :: Duration where
  "maxDuration = 2 ^ 63 - 1"

definition minDuration :: Duration where
  "minDuration = - (2 ^ 63)"

definition Second :: Duration where
  "Second = 1000000000"

definition Minute :: Duration where
  "Minute = 60 * Second"

text \<open>\<open>t.Sub(u)\<close>: the difference, saturated at the largest and smallest \<open>Duration\<close>.\<close>

definition time_Sub :: "Time \<Rightarrow> Time \<Rightarrow> Duration" where
  "time_Sub t u = max minDuration (min maxDuration (t - u))"

text \<open>\<open>time.Since(t)\<close> is \<open>time.Now().Sub(t)\<close>; \<open>now\<close> is the reading it takes.\<close>

definition time_Since :: "Time \<Rightarrow> Time \<Rightarrow> Duration" where
  "time_Since now t = time_Sub now t"

definition time_Add :: "Time \<Rightarrow> Duration \<Rightarrow> Time" where
  "time_Add t d = t + d"

text \<open>The product of two \<open>Duration\<close>s is an \<open>int64\<close> multiplication: it wraps.\<close>

definition dur_mul :: "Duration \<Rightarrow> Duration \<Rightarrow> Duration" where
  "dur_mul a b = sint (word_of_int (a * b) :: 64 word)"

record ChangeFeedID =
  cf_Namespace :: string
  cf_Name :: string

section \<open>Errors\<close>

text \<open>
  An error of the PD client carries the verdict of \<open>errors.IsRetryableError\<close> on it
  (the predicate is not among the sources).
\<close>

datatype pd_error = PDError (retryable: bool) (message: string)

datatype error =
    ErrPD pd_error
  | ErrReachMaxTry pd_error
  | ErrAPI string
  | ErrStartTsBeforeGC Ts Ts
  | ErrUpdateServiceSafepointFailed error
  | ErrGCTTLExceeded Ts ChangeFeedID
  | ErrSnapshotLostByGC Ts Ts
  | ErrCliInvalidCheckpointTs string
  | ErrCliCheckpointTsIsInFuture Ts

section \<open>The PD client\<close>

text \<open>
  The PD client is an external service. It is a test double here: \<open>pd_respond\<close> gives the
  answer of the \<open>k\<close>-th call (counted from 0) to its arguments, and \<open>pd_calls\<close> records
  every request the client has received, oldest first.
\<close>

record pd_client =
  pd_respond :: "nat \<Rightarrow> string \<Rightarrow> int \<Rightarrow> Ts \<Rightarrow> pd_error + Ts"
  pd_calls :: "(string \<times> int \<times> Ts) list"

definition UpdateServiceGCSafePoint ::
  "string \<Rightarrow> int \<Rightarrow> Ts \<Rightarrow> pd_client \<Rightarrow> (pd_error + Ts) \<times> pd_client" where
  "UpdateServiceGCSafePoint serviceID TTL safePoint pd =
     (pd_respond pd (length (pd_calls pd)) serviceID TTL safePoint,
      pd\<lparr>pd_calls := pd_calls pd @ [(serviceID, TTL, safePoint)]\<rparr>)"

section \<open>pkg/txnutil/gc/gc_service.go\<close>

definition gcServiceMaxRetries :: nat where
  "gcServiceMaxRetries = 9"

text \<open>
  Modelled from the spec: \<open>retry.Do\<close> is not among the sources ("Retries on transient
  errors up to a bounded budget"). The operation runs; a success or an error that is not
  retryable ends the loop with that outcome, a retryable error ends it once \<open>maxTries\<close>
  attempts have been made and starts another attempt otherwise. The back-off delay
  between attempts has no effect on the outcome.
\<close>

fun retry_Do ::
  "nat \<Rightarrow> ('s \<Rightarrow> (pd_error + 'a) \<times> 's) \<Rightarrow> 's \<Rightarrow> (error + 'a) \<times> 's" where
  "retry_Do 0 operation st =
     (case operation st of
        (Inr v, st') \<Rightarrow> (Inr v, st')
      | (Inl e, st') \<Rightarrow>
          if \<not> retryable e then (Inl (ErrPD e), st') else (Inl (ErrReachMaxTry e), st'))"
| "retry_Do (Suc n) operation st =
     (case operation st of
        (Inr v, st') \<Rightarrow> (Inr v, st')
      | (Inl e, st') \<Rightarrow>
          if \<not> retryable e then (Inl (ErrPD e), st')
          else if n = 0 then (Inl (ErrReachMaxTry e), st')
          else retry_Do n operation st')"

definition SetServiceGCSafepoint ::
  "pd_client \<Rightarrow> string \<Rightarrow> int \<Rightarrow> Ts \<Rightarrow> (error + Ts) \<times> pd_client" where
  "SetServiceGCSafepoint pdCli serviceID TTL safePoint =
     retry_Do gcServiceMaxRetries (UpdateServiceGCSafePoint serviceID TTL safePoint) pdCli"

text \<open>A Go \<open>error\<close> result is an \<open>error option\<close>: \<open>None\<close> is \<open>nil\<close>.\<close>

definition EnsureChangefeedStartTsSafety ::
  "pd_client \<Rightarrow> string \<Rightarrow> string \<Rightarrow> ChangeFeedID \<Rightarrow> int \<Rightarrow> Ts
     \<Rightarrow> error option \<times> pd_client" where
  "EnsureChangefeedStartTsSafety pdCli ticdcServiceID tag changefeedID TTL startTs =
     (let gcServiceID =
            ticdcServiceID @ tag @ cf_Namespace changefeedID @ ''_'' @ cf_Name changefeedID
      in case SetServiceGCSafepoint pdCli gcServiceID TTL startTs of
           (Inl err, pdCli') \<Rightarrow> (Some err, pdCli')
         | (Inr minServiceGCTs, pdCli') \<Rightarrow>
             if startTs > 0 \<and> startTs < minServiceGCTs + 1
             then (Some (ErrStartTsBeforeGC startTs minServiceGCTs), pdCli')
             else (None, pdCli'))"

section \<open>The GC manager\<close>

text \<open>
  \<open>gcSafepointUpdateInterval\<close> is a package variable that only a failpoint changes; it
  has its default here. Failpoints and the metrics gauges are left out.
\<close>

definition gcSafepointUpdateInterval :: Duration where
  "gcSafepointUpdateInterval = dur_mul 1 Minute"

record gcManager =
  gcServiceID :: string
  pdClient :: pd_client
  gcTTL :: int
  lastUpdatedTime :: Time
  lastSucceededTime :: Time
  lastSafePointTs :: Ts
  isTiCDCBlockGC :: bool

text \<open>
  \<open>t1\<close> is the reading of \<open>time.Since(m.lastUpdatedTime.Load())\<close>, \<open>t2\<close> that of the
  \<open>time.Now()\<close> stored in \<open>lastUpdatedTime\<close>, and \<open>t3\<close> the reading taken after the push:
  \<open>time.Since(m.lastSucceededTime.Load())\<close> when it failed, the \<open>time.Now()\<close> stored in
  \<open>lastSucceededTime\<close> when it succeeded.
\<close>

definition TryUpdateGCSafePoint ::
  "gcManager \<Rightarrow> Ts \<Rightarrow> bool \<Rightarrow> Time \<Rightarrow> Time \<Rightarrow> Time \<Rightarrow> error option \<times> gcManager" where
  "TryUpdateGCSafePoint m checkpointTs forceUpdate t1 t2 t3 =
     (if time_Since t1 (lastUpdatedTime m) < gcSafepointUpdateInterval \<and> \<not> forceUpdate
      then (None, m)
      else
        (let m1 = m\<lparr>lastUpdatedTime := t2\<rparr> in
         (case SetServiceGCSafepoint (pdClient m1) (gcServiceID m1) (gcTTL m1) checkpointTs of
            (Inl err, pd') \<Rightarrow>
              (let m2 = m1\<lparr>pdClient := pd'\<rparr> in
               if time_Since t3 (lastSucceededTime m2) \<ge> dur_mul Second (gcTTL m2)
               then (Some (ErrUpdateServiceSafepointFailed err), m2)
               else (None, m2))
          | (Inr actual, pd') \<Rightarrow>
              (None, m1\<lparr>pdClient := pd',
                         isTiCDCBlockGC := (actual = checkpointTs),
                         lastSafePointTs := actual,
                         lastSucceededTime := t3\<rparr>))))"

text \<open>
  Modelled from the spec: \<open>oracle.GetTimeFromTS\<close> is not among the sources ("a 64-bit
  hybrid logical timestamp with an 18-bit logical suffix"): the bits above the logical
  suffix count milliseconds.
\<close>

definition GetTimeFromTS :: "Ts \<Rightarrow> Time" where
  "GetTimeFromTS ts = int (unat (drop_bit 18 ts)) * 1000000"

definition gcSafepointUpperBound :: "Ts \<Rightarrow> Ts" where
  "gcSafepointUpperBound checkpointTs = checkpointTs - 1"

text \<open>\<open>pdTime\<close> is the reading of \<open>m.pdClock.CurrentTime()\<close>.\<close>

definition CheckStaleCheckpointTs ::
  "gcManager \<Rightarrow> Time \<Rightarrow> ChangeFeedID \<Rightarrow> Ts \<Rightarrow> error option" where
  "CheckStaleCheckpointTs m pdTime changefeedID checkpointTs =
     (if isTiCDCBlockGC m then
        if time_Sub pdTime (GetTimeFromTS (gcSafepointUpperBound checkpointTs))
             > dur_mul (gcTTL m) Second
        then Some (ErrGCTTLExceeded checkpointTs changefeedID)
        else None
      else
        if gcSafepointUpperBound checkpointTs < lastSafePointTs m
        then Some (ErrSnapshotLostByGC checkpointTs (lastSafePointTs m))
        else None)"

section \<open>cmd/cdc/cli/cli_changefeed_resume.go\<close>

text \<open>
  The fields of a \<open>Tso\<close> are \<open>int64\<close>s, kept as their 64 bits. The API client is an
  external service: \<open>Changefeeds_Get\<close> answers \<open>Changefeeds().Get(namespace, id)\<close> and
  \<open>Tso_Query\<close> answers \<open>Tso().Query\<close> for an upstream id.
\<close>

record Tso =
  Timestamp :: "64 word"
  LogicTime :: "64 word"

record ChangeFeedInfo =
  UpstreamID :: "64 word"
  CheckpointTs :: Ts

record api_client =
  Changefeeds_Get :: "string \<Rightarrow> string \<Rightarrow> error + ChangeFeedInfo"
  Tso_Query :: "64 word \<Rightarrow> error + Tso"

record resumeChangefeedOptions =
  changefeedID :: string
  namespace :: string
  changefeedDetail :: "ChangeFeedInfo option"
  noConfirm :: bool
  overwriteCheckpointTs :: string
  currentTso :: "Tso option"
  checkpointTs :: Ts

text \<open>
  Modelled from the spec: \<open>oracle.ComposeTS\<close> is not among the sources ("a 64-bit hybrid
  logical timestamp with an 18-bit logical suffix"): the physical part shifted left by 18
  bits plus the logical part, as a \<open>uint64\<close>.
\<close>

definition ComposeTS :: "64 word \<Rightarrow> 64 word \<Rightarrow> Ts" where
  "ComposeTS physical logical = push_bit 18 physical + logical"

text \<open>
  \<open>strings.ToLower\<close> on the bytes of the string: an ASCII capital becomes its small
  letter. (No letter outside ASCII has \<open>n\<close>, \<open>o\<close> or \<open>w\<close> as its lower case, so the
  comparison with \<open>now\<close> below sees what Go's sees.)
\<close>

definition lower_char :: "char \<Rightarrow> char" where
  "lower_char c =
     (let n = (of_char c :: int) in if 65 \<le> n \<and> n \<le> 90 then char_of (n + 32) else c)"

definition ToLower :: "string \<Rightarrow> string" where
  "ToLower s = map lower_char s"

text \<open>
  \<open>strconv.ParseUint(s, 10, 64)\<close> of Go's library, by its contract: the empty string,
  a byte that is not a decimal digit (a sign, a blank, an underscore) and a value above
  \<open>2^64 - 1\<close> are errors (\<open>None\<close>).
\<close>

definition digit_val :: "char \<Rightarrow> int option" where
  "digit_val c =
     (let n = (of_char c :: int) in if 48 \<le> n \<and> n \<le> 57 then Some (n - 48) else None)"

fun parse_digits :: "string \<Rightarrow> int \<Rightarrow> int option" where
  "parse_digits [] acc = Some acc"
| "parse_digits (c # cs) acc =
     (case digit_val c of None \<Rightarrow> None | Some d \<Rightarrow> parse_digits cs (acc * 10 + d))"

definition ParseUint :: "string \<Rightarrow> Ts option" where
  "ParseUint s =
     (if s = [] then None
      else case parse_digits s 0 of
             None \<Rightarrow> None
           | Some n \<Rightarrow> if n > 2 ^ 64 - 1 then None else Some (word_of_int n))"

definition getChangefeedInfo ::
  "api_client \<Rightarrow> resumeChangefeedOptions \<Rightarrow> error + ChangeFeedInfo" where
  "getChangefeedInfo api opts = Changefeeds_Get api (namespace opts) (changefeedID opts)"

text \<open>
  \<open>getTSO\<close> reads \<open>o.changefeedDetail.UpstreamID\<close>; \<open>validateParams\<close> calls it after it
  has stored the detail, which is the argument here.
\<close>

definition getTSO :: "api_client \<Rightarrow> ChangeFeedInfo \<Rightarrow> error + Tso" where
  "getTSO api detail = Tso_Query api (UpstreamID detail)"

definition validateParams ::
  "api_client \<Rightarrow> resumeChangefeedOptions \<Rightarrow> error option \<times> resumeChangefeedOptions" where
  "validateParams api opts =
     (case getChangefeedInfo api opts of
        Inl err \<Rightarrow> (Some err, opts)
      | Inr detail \<Rightarrow>
          (let opts1 = opts\<lparr>changefeedDetail := Some detail\<rparr> in
           (case getTSO api detail of
              Inl err \<Rightarrow> (Some err, opts1)
            | Inr tso \<Rightarrow>
                (let opts2 = opts1\<lparr>currentTso := Some tso\<rparr> in
                 if length (overwriteCheckpointTs opts2) = 0 then (None, opts2)
                 else if ToLower (overwriteCheckpointTs opts2) = ''now''
                 then (None, opts2\<lparr>checkpointTs := ComposeTS (Timestamp tso) (LogicTime tso)\<rparr>)
                 else
                   (case ParseUint (overwriteCheckpointTs opts2) of
                      None \<Rightarrow>
                        (Some (ErrCliInvalidCheckpointTs (overwriteCheckpointTs opts2)), opts2)
                    | Some cp \<Rightarrow>
                        (if cp = 0
                         then (Some (ErrCliInvalidCheckpointTs (overwriteCheckpointTs opts2)),
                               opts2)
                         else if cp > ComposeTS (Timestamp tso) (LogicTime tso)
                         then (Some (ErrCliCheckpointTsIsInFuture cp), opts2)
                         else (None, opts2\<lparr>checkpointTs := cp\<rparr>)))))))"

section \<open>pkg/common/span_op.go\<close>

text \<open>
  \<open>bytes.Compare\<close> of Go's library: the first differing byte decides, unsigned; a proper
  prefix is the smaller. A \<open>nil\<close> slice and an empty one both have length 0.
\<close>

fun bytes_Compare :: "8 word list \<Rightarrow> 8 word list \<Rightarrow> int" where
  "bytes_Compare [] [] = 0"
| "bytes_Compare [] (y # ys) = - 1"
| "bytes_Compare (x # xs) [] = 1"
| "bytes_Compare (x # xs) (y # ys) =
     (if x < y then - 1 else if y < x then 1 else bytes_Compare xs ys)"

definition StartCompare :: "8 word list \<Rightarrow> 8 word list \<Rightarrow> int" where
  "StartCompare lhs rhs =
     (if length lhs = 0 \<and> length rhs = 0 then 0
      else if length lhs = 0 then - 1
      else if length rhs = 0 then 1
      else bytes_Compare lhs rhs)"

definition EndCompare :: "8 word list \<Rightarrow> 8 word list \<Rightarrow> int" where
  "EndCompare lhs rhs =
     (if length lhs = 0 \<and> length rhs = 0 then 0
      else if length lhs = 0 then 1
      else if length rhs = 0 then - 1
      else bytes_Compare lhs rhs)"

text \<open>The order the comparison is measured against: the lexicographic order on byte lists.\<close>

definition lex_cmp :: "8 word list \<Rightarrow> 8 word list \<Rightarrow> int" where
  "lex_cmp a b = (if a < b then - 1 else if a = b then 0 else 1)"

section \<open>The balance scheduler\<close>

type_synonym node_ID = string
type_synonym GroupID = int

record SpanReplication =
  sr_ID :: nat
  sr_GroupID :: GroupID
  sr_NodeID :: node_ID

datatype operator = MoveDispatcherOperator SpanReplication node_ID node_ID

text \<open>
  The scheduler works on the operator controller, the span controller, the node manager
  and its random source; none of them is among the sources. Together they are the world
  \<open>'w\<close> of the scheduler, and their methods and the two functions of \<open>pkg/scheduler\<close>
  are parameters: a method that changes the world returns the new one. A Go map is the
  list of its entries in the order the \<open>range\<close> loop visits them; the alive nodes are
  the keys of the node map. \<open>Balance\<close> gets the callback \<open>move\<close> it reports moves with.
  \<open>nonFiniteToInt\<close> is what the platform gives for the conversion of a float that is
  not finite to \<open>int\<close> (Go leaves it to the implementation).
\<close>

record 'w collaborators =
  OperatorSize :: "'w \<Rightarrow> int"
  AddOperator :: "operator \<Rightarrow> 'w \<Rightarrow> bool \<times> 'w"
  GetAbsentSize :: "'w \<Rightarrow> int"
  GetGroups :: "'w \<Rightarrow> GroupID list"
  GetTaskSizePerNode :: "'w \<Rightarrow> (node_ID \<times> int) list"
  GetTaskSizePerNodeByGroup :: "'w \<Rightarrow> GroupID \<Rightarrow> (node_ID \<times> int) list"
  GetReplicatingByGroup :: "'w \<Rightarrow> GroupID \<Rightarrow> SpanReplication list"
  GetImbalanceGroupNodeTask ::
    "'w \<Rightarrow> node_ID list \<Rightarrow> (node_ID \<times> SpanReplication option) list list \<times> bool"
  GetAliveNodes :: "'w \<Rightarrow> node_ID list"
  CheckBalanceStatus :: "(node_ID \<times> int) list \<Rightarrow> node_ID list \<Rightarrow> int"
  Balance ::
    "int \<Rightarrow> node_ID list \<Rightarrow> SpanReplication list
       \<Rightarrow> (SpanReplication \<Rightarrow> node_ID \<Rightarrow> 'w \<Rightarrow> bool \<times> 'w) \<Rightarrow> 'w \<Rightarrow> int \<times> 'w"
  nonFiniteToInt :: int

record balanceScheduler =
  bs_changefeedID :: ChangeFeedID
  batchSize :: int
  lastRebalanceTime :: Time
  checkBalanceInterval :: Duration
  forceBalance :: bool

definition doMove ::
  "'w collaborators \<Rightarrow> SpanReplication \<Rightarrow> node_ID \<Rightarrow> 'w \<Rightarrow> bool \<times> 'w" where
  "doMove deps replication ident w =
     AddOperator deps (MoveDispatcherOperator replication (sr_NodeID replication) ident) w"

text \<open>
  The loop of \<open>schedulerGroup\<close> over the groups that \<open>GetGroups\<close> returned before the
  loop; \<open>moved\<close> and the world are the loop's state.
\<close>

fun schedulerGroup_loop ::
  "'w collaborators \<Rightarrow> balanceScheduler \<Rightarrow> node_ID list \<Rightarrow> GroupID list \<Rightarrow> int \<Rightarrow> 'w
     \<Rightarrow> int \<times> 'w" where
  "schedulerGroup_loop deps s nodes [] moved w = (moved, w)"
| "schedulerGroup_loop deps s nodes (grp # groups) moved w =
     (let moveSize = CheckBalanceStatus deps (GetTaskSizePerNodeByGroup deps w grp) nodes in
      if moveSize \<le> 0 then schedulerGroup_loop deps s nodes groups moved w
      else
        (let replicas = GetReplicatingByGroup deps w grp;
             r = Balance deps (batchSize s) nodes replicas (doMove deps) w;
             moved' = moved + fst r
         in if moved' \<ge> batchSize s then (moved', snd r)
            else schedulerGroup_loop deps s nodes groups moved' (snd r)))"

definition schedulerGroup ::
  "'w collaborators \<Rightarrow> balanceScheduler \<Rightarrow> node_ID list \<Rightarrow> 'w \<Rightarrow> int \<times> 'w" where
  "schedulerGroup deps s nodes w = schedulerGroup_loop deps s nodes (GetGroups deps w) 0 w"

text \<open>\<open>sizePerNode\<close>: a missing key reads as 0, and \<open>sizePerNode[id] += d\<close> creates it.\<close>

definition size_of :: "(node_ID \<times> int) list \<Rightarrow> node_ID \<Rightarrow> int" where
  "size_of sizePerNode ident = (case map_of sizePerNode ident of None \<Rightarrow> 0 | Some v \<Rightarrow> v)"

definition size_add :: "node_ID \<Rightarrow> int \<Rightarrow> (node_ID \<times> int) list \<Rightarrow> (node_ID \<times> int) list" where
  "size_add ident d sizePerNode = AList.update ident (size_of sizePerNode ident + d) sizePerNode"

definition count_task ::
  "node_ID \<times> SpanReplication option \<Rightarrow> int \<times> (node_ID \<times> int) list
     \<Rightarrow> int \<times> (node_ID \<times> int) list" where
  "count_task entry acc =
     (if snd entry \<noteq> None then (fst acc + 1, size_add (fst entry) 1 (snd acc)) else acc)"

text \<open>
  \<open>int(math.Floor(float64(totalTasks) / float64(len(nodes))))\<close>: the counts are far
  below \<open>2^53\<close>, so the quotient of the floats is the quotient of the numbers.
\<close>

definition lowerLimit :: "'w collaborators \<Rightarrow> int \<Rightarrow> nat \<Rightarrow> int" where
  "lowerLimit deps totalTasks n =
     (if n = 0 then nonFiniteToInt deps else totalTasks div int n)"

text \<open>
  The inner loop over \<open>availableNodes\<close>; \<open>next\<close>, \<open>sizePerNode\<close>, \<open>moved\<close> and the world
  are its state. A victim has a task, so \<open>nodeTasks[old]\<close> is never \<open>nil\<close>.
\<close>

fun pair_loop ::
  "'w collaborators \<Rightarrow> (node_ID \<times> SpanReplication option) list \<Rightarrow> node_ID list
     \<Rightarrow> node_ID list \<Rightarrow> nat \<Rightarrow> (node_ID \<times> int) list \<Rightarrow> int \<Rightarrow> 'w
     \<Rightarrow> (node_ID \<times> int) list \<times> int \<times> 'w" where
  "pair_loop deps nodeTasks victims [] nxt sizePerNode moved w = (sizePerNode, moved, w)"
| "pair_loop deps nodeTasks victims (new # rest) nxt sizePerNode moved w =
     (if nxt \<ge> length victims then (sizePerNode, moved, w)
      else
        (let old = victims ! nxt in
         (case map_of nodeTasks old of
            Some (Some replication) \<Rightarrow>
              (let r = doMove deps replication new w in
               if fst r
               then pair_loop deps nodeTasks victims rest (nxt + 1)
                      (size_add new 1 (size_add old (- 1) sizePerNode)) (moved + 1) (snd r)
               else pair_loop deps nodeTasks victims rest nxt sizePerNode moved (snd r))
          | _ \<Rightarrow> (sizePerNode, moved, w))))"

fun global_loop ::
  "'w collaborators \<Rightarrow> int \<Rightarrow> (node_ID \<times> SpanReplication option) list list
     \<Rightarrow> (node_ID \<times> int) list \<Rightarrow> int \<Rightarrow> 'w \<Rightarrow> int \<times> 'w" where
  "global_loop deps lowerLimitPerNode [] sizePerNode moved w = (moved, w)"
| "global_loop deps lowerLimitPerNode (nodeTasks # groups) sizePerNode moved w =
     (let victims =
            map fst (filter (\<lambda>e. snd e \<noteq> None \<and> size_of sizePerNode (fst e) > lowerLimitPerNode)
                       nodeTasks);
          availableNodes =
            map fst (filter (\<lambda>e. snd e = None \<and> size_of sizePerNode (fst e) < lowerLimitPerNode)
                       nodeTasks);
          r = pair_loop deps nodeTasks victims availableNodes 0 sizePerNode moved w
      in global_loop deps lowerLimitPerNode groups (fst r) (fst (snd r)) (snd (snd r)))"

definition schedulerGlobal ::
  "'w collaborators \<Rightarrow> balanceScheduler \<Rightarrow> node_ID list \<Rightarrow> 'w \<Rightarrow> int \<times> 'w" where
  "schedulerGlobal deps s nodes w =
     (let moveSize = CheckBalanceStatus deps (GetTaskSizePerNode deps w) nodes in
      if moveSize \<le> 0 then (0, w)
      else
        (let g = GetImbalanceGroupNodeTask deps w nodes in
         if \<not> snd g then (0, w)
         else
           (let counted = fold count_task (concat (fst g)) (0, []);
                lowerLimitPerNode = lowerLimit deps (fst counted) (length nodes);
                limitCnt = length (filter (\<lambda>e. snd e = lowerLimitPerNode) (snd counted))
            in if limitCnt = length nodes then (0, w)
               else global_loop deps lowerLimitPerNode (fst g) (snd counted) 0 w)))"

text \<open>
  \<open>t1\<close> is the reading of \<open>time.Since(s.lastRebalanceTime)\<close>, \<open>t2\<close> is \<open>now\<close>, and \<open>t3\<close>
  the \<open>time.Now()\<close> stored in \<open>lastRebalanceTime\<close>. The result is the returned time, the
  scheduler and the world after the call. The failpoint \<open>StopBalanceScheduler\<close> is a
  marker that does nothing unless a test enables it, and is left out.
\<close>

definition Execute ::
  "'w collaborators \<Rightarrow> balanceScheduler \<Rightarrow> Time \<Rightarrow> Time \<Rightarrow> Time \<Rightarrow> 'w
     \<Rightarrow> Time \<times> balanceScheduler \<times> 'w" where
  "Execute deps s t1 t2 t3 w =
     (if \<not> forceBalance s \<and> time_Since t1 (lastRebalanceTime s) < checkBalanceInterval s
      then (time_Add (lastRebalanceTime s) (checkBalanceInterval s), s, w)
      else
        (let now = t2 in
         if OperatorSize deps w > 0 \<or> GetAbsentSize deps w > 0
         then (time_Add now (checkBalanceInterval s), s, w)
         else
           (let nodes = GetAliveNodes deps w;
                g = schedulerGroup deps s nodes w;
                r = (if fst g = 0 then schedulerGlobal deps s nodes (snd g) else g)
            in (time_Add now (checkBalanceInterval s),
                s\<lparr>forceBalance := (fst r \<ge> batchSize s), lastRebalanceTime := t3\<rparr>,
                snd r))))"

section \<open>A small maintainer to run the scheduler on\<close>

text \<open>
  A test double for the collaborators, used where the scheduler is run on a concrete
  state. The operator controller keeps the operators in flight and refuses a second
  operator on a span ("at most one operator per span at any time. AddOperator returns
  false if the span already has one"); a span with an operator leaves the replicating
  set. \<open>CheckBalanceStatus\<close> counts the tasks above the rounded-up mean, and \<open>Balance\<close>
  moves up to \<open>batchSize\<close> of the given spans to the first alive node that holds none
  of them.
\<close>

record demo_world =
  dw_operators :: "operator list"
  dw_replicating :: "SpanReplication list"
  dw_absent :: int
  dw_alive :: "node_ID list"

definition op_span :: "operator \<Rightarrow> nat" where
  "op_span op = (case op of MoveDispatcherOperator r _ _ \<Rightarrow> sr_ID r)"

definition demo_AddOperator :: "operator \<Rightarrow> demo_world \<Rightarrow> bool \<times> demo_world" where
  "demo_AddOperator op w =
     (if List.member (map op_span (dw_operators w)) (op_span op) then (False, w)
      else (True, w\<lparr>dw_operators := dw_operators w @ [op],
                     dw_replicating := filter (\<lambda>r. sr_ID r \<noteq> op_span op) (dw_replicating w)\<rparr>))"

definition demo_task_sizes :: "SpanReplication list \<Rightarrow> (node_ID \<times> int) list" where
  "demo_task_sizes rs =
     map (\<lambda>n. (n, int (length (filter (\<lambda>r. sr_NodeID r = n) rs)))) (remdups (map sr_NodeID rs))"

definition demo_CheckBalanceStatus :: "(node_ID \<times> int) list \<Rightarrow> node_ID list \<Rightarrow> int" where
  "demo_CheckBalanceStatus nodeTaskSize allNodes =
     (let sizes = nodeTaskSize
                    @ map (\<lambda>n. (n, 0)) (filter (\<lambda>n. map_of nodeTaskSize n = None) allNodes);
          totalSize = sum_list (map snd sizes);
          k = int (length sizes);
          upperLimit = (if k = 0 then 0 else (totalSize + k - 1) div k)
      in sum_list (map (\<lambda>e. if snd e > upperLimit then snd e - upperLimit else 0) sizes))"

fun demo_move_each ::
  "(SpanReplication \<Rightarrow> node_ID \<Rightarrow> 'w \<Rightarrow> bool \<times> 'w) \<Rightarrow> SpanReplication list \<Rightarrow> node_ID
     \<Rightarrow> int \<Rightarrow> 'w \<Rightarrow> int \<times> 'w" where
  "demo_move_each move [] target moved w = (moved, w)"
| "demo_move_each move (r # rs) target moved w =
     (let res = move r target w
      in demo_move_each move rs target (if fst res then moved + 1 else moved) (snd res))"

definition demo_Balance ::
  "int \<Rightarrow> node_ID list \<Rightarrow> SpanReplication list
     \<Rightarrow> (SpanReplication \<Rightarrow> node_ID \<Rightarrow> 'w \<Rightarrow> bool \<times> 'w) \<Rightarrow> 'w \<Rightarrow> int \<times> 'w" where
  "demo_Balance batch nodes replicas move w =
     (case find (\<lambda>n. \<not> List.member (map sr_NodeID replicas) n) nodes of
        None \<Rightarrow> (0, w)
      | Some target \<Rightarrow> demo_move_each move (take (nat batch) replicas) target 0 w)"

definition demo_GetImbalanceGroupNodeTask ::
  "demo_world \<Rightarrow> node_ID list \<Rightarrow> (node_ID \<times> SpanReplication option) list list \<times> bool" where
  "demo_GetImbalanceGroupNodeTask w nodes =
     (map (\<lambda>g. map (\<lambda>n. (n, find (\<lambda>r. sr_GroupID r = g \<and> sr_NodeID r = n) (dw_replicating w)))
                 nodes)
          (remdups (map sr_GroupID (dw_replicating w))),
      True)"

definition demo_deps :: "demo_world collaborators" where
  "demo_deps =
     \<lparr>OperatorSize = (\<lambda>w. int (length (dw_operators w))),
      AddOperator = demo_AddOperator,
      GetAbsentSize = dw_absent,
      GetGroups = (\<lambda>w. remdups (map sr_GroupID (dw_replicating w))),
      GetTaskSizePerNode = (\<lambda>w. demo_task_sizes (dw_replicating w)),
      GetTaskSizePerNodeByGroup =
        (\<lambda>w g. demo_task_sizes (filter (\<lambda>r. sr_GroupID r = g) (dw_replicating w))),
      GetReplicatingByGroup = (\<lambda>w g. filter (\<lambda>r. sr_GroupID r = g) (dw_replicating w)),
      GetImbalanceGroupNodeTask = demo_GetImbalanceGroupNodeTask,
      GetAliveNodes = dw_alive,
      CheckBalanceStatus = demo_CheckBalanceStatus,
      Balance = demo_Balance,
      nonFiniteToInt = - (2 ^ 63)\<rparr>"

definition demo_span :: "nat \<Rightarrow> GroupID \<Rightarrow> node_ID \<Rightarrow> SpanReplication" where
  "demo_span i g n = \<lparr>sr_ID = i, sr_GroupID = g, sr_NodeID = n\<rparr>"

text \<open>Four spans of one group on node \<open>n1\<close>, node \<open>n2\<close> empty, nothing in flight.\<close>

definition demo_w_group :: demo_world where
  "demo_w_group =
     \<lparr>dw_operators = [],
      dw_replicating = [demo_span 1 7 ''n1'', demo_span 2 7 ''n1'',
                        demo_span 3 7 ''n1'', demo_span 4 7 ''n1''],
      dw_absent = 0,
      dw_alive = [''n1'', ''n2'']\<rparr>"

text \<open>
  Two groups of one span each, both on node \<open>n1\<close>: every group is balanced, the nodes
  are not.
\<close>

definition demo_w_global :: demo_world where
  "demo_w_global =
     \<lparr>dw_operators = [],
      dw_replicating = [demo_span 1 7 ''n1'', demo_span 2 8 ''n1''],
      dw_absent = 0,
      dw_alive = [''n1'', ''n2'']\<rparr>"

definition demo_cf :: ChangeFeedID where
  "demo_cf = \<lparr>cf_Namespace = ''default'', cf_Name = ''cf1''\<rparr>"

definition demo_scheduler :: "int \<Rightarrow> bool \<Rightarrow> balanceScheduler" where
  "demo_scheduler batch force =
     \<lparr>bs_changefeedID = demo_cf, batchSize = batch, lastRebalanceTime = 0,
      checkBalanceInterval = 60 * Second, forceBalance = force\<rparr>"

text \<open>
  A PD client that answers every call with the same minimum service GC safepoint, and one
  that always fails with an error that is not retryable.
\<close>

definition demo_pd :: "Ts \<Rightarrow> pd_client" where
  "demo_pd minTs = \<lparr>pd_respond = (\<lambda>k serviceID TTL safePoint. Inr minTs), pd_calls = []\<rparr>"


definition demo_manager :: "pd_client \<Rightarrow> gcManager" where
  "demo_manager pd =
     \<lparr>gcServiceID = ''ticdc'', pdClient = pd, gcTTL = 86400, lastUpdatedTime = 0,
      lastSucceededTime = 0, lastSafePointTs = 100, isTiCDCBlockGC = False\<rparr>"

definition demo_api :: "Tso \<Rightarrow> api_client" where
  "demo_api tso =
     \<lparr>Changefeeds_Get = (\<lambda>ns ident. Inr \<lparr>UpstreamID = 1, CheckpointTs = 400\<rparr>),
      Tso_Query = (\<lambda>up. Inr tso)\<rparr>"

definition demo_options :: "string \<Rightarrow> resumeChangefeedOptions" where
  "demo_options ts =
     \<lparr>changefeedID = ''cf1'', namespace = ''default'', changefeedDetail = None,
      noConfirm = True, overwriteCheckpointTs = ts, currentTso = None, checkpointTs = 0\<rparr>"

section \<open>Properties of the GC safepoint keeper\<close>

lemma retry_Do_error_kind:
  "fst (retry_Do n operation st) = Inl err \<Longrightarrow> (\<exists>e. err = ErrPD e \<or> err = ErrReachMaxTry e)"
proof (induction n arbitrary: st)
  case 0
  then show ?case by (auto split: prod.splits sum.splits if_splits)
next
  case (Suc n)
  then show ?case by (auto split: prod.splits sum.splits if_splits)
qed

lemma SetServiceGCSafepoint_error_kind:
  "fst (SetServiceGCSafepoint pdCli serviceID TTL safePoint) = Inl err
     \<Longrightarrow> (\<exists>e. err = ErrPD e \<or> err = ErrReachMaxTry e)"
  unfolding SetServiceGCSafepoint_def by (rule retry_Do_error_kind)

lemma retry_Do_calls:
  "\<exists>k\<ge>1. pd_calls (snd (retry_Do n (UpdateServiceGCSafePoint serviceID TTL safePoint) pd))
            = pd_calls pd @ replicate k (serviceID, TTL, safePoint)"
proof (induction n arbitrary: pd)
  case 0
  obtain r pd1 where up: "UpdateServiceGCSafePoint serviceID TTL safePoint pd = (r, pd1)"
    by fastforce
  then have pd1: "pd_calls pd1 = pd_calls pd @ replicate 1 (serviceID, TTL, safePoint)"
    by (auto simp add: UpdateServiceGCSafePoint_def)
  show ?case
    by (rule exI [of _ 1]) (simp add: up pd1 split: sum.splits)
next
  case (Suc n)
  obtain r pd1 where up: "UpdateServiceGCSafePoint serviceID TTL safePoint pd = (r, pd1)"
    by fastforce
  then have pd1: "pd_calls pd1 = pd_calls pd @ replicate 1 (serviceID, TTL, safePoint)"
    by (auto simp add: UpdateServiceGCSafePoint_def)
  from Suc.IH [of pd1] obtain k where k: "k \<ge> 1"
    "pd_calls (snd (retry_Do n (UpdateServiceGCSafePoint serviceID TTL safePoint) pd1))
       = pd_calls pd1 @ replicate k (serviceID, TTL, safePoint)" by blast
  have more: "pd_calls pd1 @ replicate k (serviceID, TTL, safePoint)
                = pd_calls pd @ replicate (Suc k) (serviceID, TTL, safePoint)"
    by (simp add: pd1)
  show ?case
  proof (cases "\<exists>e. r = Inl e \<and> retryable e \<and> n \<noteq> 0")
    case True
    then show ?thesis
      using k(2) more by (intro exI [of _ "Suc k"]) (auto simp add: up)
  next
    case False
    then show ?thesis
      using pd1 by (intro exI [of _ 1]) (auto simp add: up split: sum.splits)
  qed
qed

lemma SetServiceGCSafepoint_calls:
  "\<exists>k\<ge>1. pd_calls (snd (SetServiceGCSafepoint pd serviceID TTL safePoint))
            = pd_calls pd @ replicate k (serviceID, TTL, safePoint)"
  unfolding SetServiceGCSafepoint_def by (rule retry_Do_calls)

text \<open>A client that answers at once is called once.\<close>

lemma SetServiceGCSafepoint_demo_pd:
  "SetServiceGCSafepoint (demo_pd minTs) serviceID TTL safePoint
     = (Inr minTs, \<lparr>pd_respond = (\<lambda>k serviceID TTL safePoint. Inr minTs),
                    pd_calls = [(serviceID, TTL, safePoint)]\<rparr>)"
  by (simp add: SetServiceGCSafepoint_def gcServiceMaxRetries_def demo_pd_def
      UpdateServiceGCSafePoint_def numeral_eq_Suc)


lemma time_Since_less_iff:
  "- (2 ^ 63) < d \<Longrightarrow> d < 2 ^ 63 \<Longrightarrow> time_Since now t < d \<longleftrightarrow> now - t < d"
  by (auto simp add: time_Since_def time_Sub_def maxDuration_def minDuration_def)

lemma dur_mul_exact:
  "- (2 ^ 63) \<le> a * b \<Longrightarrow> a * b < 2 ^ 63 \<Longrightarrow> dur_mul a b = a * b"
  unfolding dur_mul_def
  by (simp only: sint_sbintrunc') (simp add: signed_take_bit_int_eq_self)

text \<open>
  The guard of \<open>EnsureChangefeedStartTsSafety\<close> without the wrap-around:
  \<open>minServiceGCTs + 1\<close> is 0 when \<open>minServiceGCTs\<close> is \<open>2^64 - 1\<close>.
\<close>

lemma StartTsBeforeGC_guard_unat:
  fixes startTs minServiceGCTs :: Ts
  shows "startTs < minServiceGCTs + 1
           \<longleftrightarrow> unat startTs \<le> unat minServiceGCTs \<and> minServiceGCTs \<noteq> - 1"
proof (cases "minServiceGCTs = - 1")
  case True
  then show ?thesis by simp
next
  case False
  then have "1 + minServiceGCTs \<noteq> 0"
    by (metis add.commute add.right_inverse add_left_cancel)
  then have "unat (1 + minServiceGCTs) = Suc (unat minServiceGCTs)"
    by (rule unatSuc)
  then show ?thesis
    using False by (simp add: word_less_nat_alt add.commute less_Suc_eq_le)
qed

lemma gcSafepointUpdateInterval_value: "gcSafepointUpdateInterval = 60000000000"
  by (simp add: gcSafepointUpdateInterval_def Minute_def Second_def dur_mul_exact)

text \<open>
  C1 (as amended). When the safepoint update succeeds and returns \<open>minServiceGCTs\<close>,
  \<open>EnsureChangefeedStartTsSafety\<close> returns the \<open>StartTsBeforeGC\<close> error exactly when
  \<open>startTs > 0\<close> and \<open>startTs < minServiceGCTs + 1\<close> (the sum in 64-bit unsigned
  arithmetic), and \<open>nil\<close> otherwise.
\<close>

theorem EnsureChangefeedStartTsSafety_guard:
  assumes "fst (SetServiceGCSafepoint pdCli
                  (ticdcServiceID @ tag @ cf_Namespace cf @ ''_'' @ cf_Name cf) TTL startTs)
             = Inr minServiceGCTs"
  shows "fst (EnsureChangefeedStartTsSafety pdCli ticdcServiceID tag cf TTL startTs)
           = (if 0 < startTs \<and> startTs < minServiceGCTs + 1
              then Some (ErrStartTsBeforeGC startTs minServiceGCTs) else None)"
proof -
  obtain pdCli' where
    "SetServiceGCSafepoint pdCli
       (ticdcServiceID @ tag @ cf_Namespace cf @ ''_'' @ cf_Name cf) TTL startTs
       = (Inr minServiceGCTs, pdCli')"
    using assms by (metis prod.collapse)
  then show ?thesis
    by (simp add: EnsureChangefeedStartTsSafety_def)
qed

theorem EnsureChangefeedStartTsSafety_guard_witness:
  "fst (SetServiceGCSafepoint (demo_pd 2000)
          (''ticdc'' @ ''-creating-'' @ cf_Namespace demo_cf @ ''_'' @ cf_Name demo_cf) 86400 1000)
     = Inr 2000
   \<and> fst (EnsureChangefeedStartTsSafety (demo_pd 2000) ''ticdc'' ''-creating-'' demo_cf 86400 1000)
       = Some (ErrStartTsBeforeGC 1000 2000)"
  using EnsureChangefeedStartTsSafety_guard
          [of "demo_pd 2000" "''ticdc''" "''-creating-''" demo_cf 86400 1000 2000]
  by (simp add: SetServiceGCSafepoint_demo_pd)

text \<open>
  C1 as stated fails at \<open>startTs = 0\<close>: the update succeeds and returns 5, so
  \<open>startTs < minServiceGCTs + 1\<close>, and the result is \<open>nil\<close>.
\<close>

theorem EnsureChangefeedStartTsSafety_zero_counterexample:
  "fst (SetServiceGCSafepoint (demo_pd 5)
          (''ticdc'' @ ''-creating-'' @ cf_Namespace demo_cf @ ''_'' @ cf_Name demo_cf) 86400 0)
     = Inr 5
   \<and> (0 :: Ts) < 5 + 1
   \<and> fst (EnsureChangefeedStartTsSafety (demo_pd 5) ''ticdc'' ''-creating-'' demo_cf 86400 0)
       = None"
  by (simp add: SetServiceGCSafepoint_demo_pd EnsureChangefeedStartTsSafety_def)

text \<open>
  C9. With \<open>startTs = 0\<close>, \<open>EnsureChangefeedStartTsSafety\<close> returns the error of the
  safepoint update when that fails and \<open>nil\<close> when it succeeds, whatever
  \<open>minServiceGCTs\<close> is; it never returns the \<open>StartTsBeforeGC\<close> error.
\<close>

theorem EnsureChangefeedStartTsSafety_startTs_zero:
  "fst (EnsureChangefeedStartTsSafety pdCli ticdcServiceID tag cf TTL 0)
     = (case fst (SetServiceGCSafepoint pdCli
                    (ticdcServiceID @ tag @ cf_Namespace cf @ ''_'' @ cf_Name cf) TTL 0) of
          Inl err \<Rightarrow> Some err | Inr minServiceGCTs \<Rightarrow> None)
   \<and> fst (EnsureChangefeedStartTsSafety pdCli ticdcServiceID tag cf TTL 0)
       \<noteq> Some (ErrStartTsBeforeGC a b)"
proof -
  let ?r = "SetServiceGCSafepoint pdCli
              (ticdcServiceID @ tag @ cf_Namespace cf @ ''_'' @ cf_Name cf) TTL 0"
  have eq: "fst (EnsureChangefeedStartTsSafety pdCli ticdcServiceID tag cf TTL 0)
              = (case fst ?r of Inl err \<Rightarrow> Some err | Inr minServiceGCTs \<Rightarrow> None)"
    by (simp add: EnsureChangefeedStartTsSafety_def split: prod.splits sum.splits)
  have "(case fst ?r of Inl err \<Rightarrow> Some err | Inr minServiceGCTs \<Rightarrow> None)
          \<noteq> Some (ErrStartTsBeforeGC a b)"
  proof (cases "fst ?r")
    case (Inl err)
    then show ?thesis
      using SetServiceGCSafepoint_error_kind [OF Inl] by auto
  next
    case (Inr m)
    then show ?thesis by simp
  qed
  with eq show ?thesis by simp
qed

theorem EnsureChangefeedStartTsSafety_startTs_zero_witness:
  "fst (EnsureChangefeedStartTsSafety (demo_pd (- 1)) ''ticdc'' ''-resuming-'' demo_cf 86400 0)
     = None
   \<and> fst (EnsureChangefeedStartTsSafety (demo_pd (- 1)) ''ticdc'' ''-resuming-'' demo_cf 86400 0)
       \<noteq> Some (ErrStartTsBeforeGC 0 (- 1))"
  using EnsureChangefeedStartTsSafety_startTs_zero
          [of "demo_pd (- 1)" "''ticdc''" "''-resuming-''" demo_cf 86400 0 "- 1"]
  by (simp add: SetServiceGCSafepoint_demo_pd)

text \<open>
  C10. \<open>CheckStaleCheckpointTs\<close> takes \<open>checkpointTs - 1\<close> in unsigned 64-bit arithmetic
  as the upper bound of the safepoint: for \<open>checkpointTs = 0\<close> the bound is \<open>2^64 - 1\<close>,
  and when \<open>isTiCDCBlockGC\<close> is false the call returns \<open>nil\<close>, whatever
  \<open>lastSafePointTs\<close> is.
\<close>

theorem CheckStaleCheckpointTs_zero:
  "unat (gcSafepointUpperBound 0) = 2 ^ 64 - 1
   \<and> (\<not> isTiCDCBlockGC m \<longrightarrow> CheckStaleCheckpointTs m pdTime cf 0 = None)"
proof -
  have "gcSafepointUpperBound 0 = (- 1 :: Ts)"
    by (simp add: gcSafepointUpperBound_def)
  moreover have "\<not> ((- 1 :: Ts) < x)" for x
    by (simp add: not_less)
  moreover have "unat (- 1 :: Ts) = 2 ^ 64 - 1"
    by (simp add: unsigned_minus_1_eq_mask mask_eq_exp_minus_1)
  ultimately show ?thesis
    by (simp add: CheckStaleCheckpointTs_def)
qed

theorem CheckStaleCheckpointTs_zero_witness:
  "\<not> isTiCDCBlockGC (demo_manager (demo_pd 100))
   \<and> 0 < lastSafePointTs (demo_manager (demo_pd 100))
   \<and> CheckStaleCheckpointTs (demo_manager (demo_pd 100)) (1000 * Second) demo_cf 0 = None"
  using CheckStaleCheckpointTs_zero [of "demo_manager (demo_pd 100)" "1000 * Second" demo_cf]
  by (simp add: demo_manager_def)




text \<open>
  C5. A call of \<open>TryUpdateGCSafePoint\<close> without \<open>forceUpdate\<close>, less than one minute after
  \<open>lastUpdatedTime\<close>, returns \<open>nil\<close> and leaves the manager as it was: no request reaches
  PD, and \<open>lastSafePointTs\<close>, \<open>lastSucceededTime\<close> and \<open>isTiCDCBlockGC\<close> keep their
  values. A call with \<open>forceUpdate\<close> sends PD at least one request, each for the
  manager's service id and TTL and the given checkpoint.
\<close>

theorem TryUpdateGCSafePoint_interval:
  "(\<not> forceUpdate \<and> t1 - lastUpdatedTime m < Minute
      \<longrightarrow> TryUpdateGCSafePoint m cp forceUpdate t1 t2 t3 = (None, m))
   \<and> (forceUpdate
      \<longrightarrow> (\<exists>k\<ge>1. pd_calls (pdClient (snd (TryUpdateGCSafePoint m cp forceUpdate t1 t2 t3)))
                    = pd_calls (pdClient m) @ replicate k (gcServiceID m, gcTTL m, cp)))"
proof (intro conjI impI)
  assume "\<not> forceUpdate \<and> t1 - lastUpdatedTime m < Minute"
  then show "TryUpdateGCSafePoint m cp forceUpdate t1 t2 t3 = (None, m)"
    by (simp add: TryUpdateGCSafePoint_def gcSafepointUpdateInterval_value
        time_Since_less_iff Minute_def Second_def)
next
  assume force: forceUpdate
  obtain r pd' where push:
    "SetServiceGCSafepoint (pdClient m) (gcServiceID m) (gcTTL m) cp = (r, pd')"
    by fastforce
  from SetServiceGCSafepoint_calls [of "pdClient m" "gcServiceID m" "gcTTL m" cp]
  obtain k where k: "k \<ge> 1"
    "pd_calls pd' = pd_calls (pdClient m) @ replicate k (gcServiceID m, gcTTL m, cp)"
    by (auto simp add: push)
  have "pdClient (snd (TryUpdateGCSafePoint m cp forceUpdate t1 t2 t3)) = pd'"
    using force by (cases r) (simp_all add: TryUpdateGCSafePoint_def push Let_def)
  with k show "\<exists>k\<ge>1. pd_calls (pdClient (snd (TryUpdateGCSafePoint m cp forceUpdate t1 t2 t3)))
                    = pd_calls (pdClient m) @ replicate k (gcServiceID m, gcTTL m, cp)"
    by auto
qed

theorem TryUpdateGCSafePoint_interval_witness:
  "TryUpdateGCSafePoint (demo_manager (demo_pd 100)) 500 False (30 * Second) (30 * Second)
     (30 * Second) = (None, demo_manager (demo_pd 100))
   \<and> (\<exists>k\<ge>1. pd_calls (pdClient (snd (TryUpdateGCSafePoint (demo_manager (demo_pd 100)) 500 True
                                        (30 * Second) (30 * Second) (30 * Second))))
               = replicate k (''ticdc'', 86400, 500))"
  using TryUpdateGCSafePoint_interval
          [of False "30 * Second" "demo_manager (demo_pd 100)" 500 "30 * Second" "30 * Second"]
        TryUpdateGCSafePoint_interval
          [of True "30 * Second" "demo_manager (demo_pd 100)" 500 "30 * Second" "30 * Second"]
  by (simp add: demo_manager_def demo_pd_def Minute_def Second_def)

section \<open>Properties of the key comparisons\<close>

lemma bytes_Compare_lex_cmp: "bytes_Compare a b = lex_cmp a b"
  by (induction a b rule: bytes_Compare.induct) (auto simp add: lex_cmp_def)

text \<open>
  C8. \<open>StartCompare\<close> puts the empty key below every other key and \<open>EndCompare\<close> puts it
  above: on two empty keys both return 0; on an empty and a non-empty key
  \<open>StartCompare\<close> returns \<open>-1\<close> and \<open>EndCompare\<close> \<open>+1\<close> (and the reverse with the
  arguments exchanged); on two non-empty keys both return what the lexicographic order on
  byte lists gives: \<open>-1\<close>, 0 or \<open>+1\<close>.
\<close>

theorem StartCompare_EndCompare_order:
  "StartCompare [] [] = 0 \<and> EndCompare [] [] = 0
   \<and> (b \<noteq> [] \<longrightarrow> StartCompare [] b = - 1 \<and> EndCompare [] b = 1
                 \<and> StartCompare b [] = 1 \<and> EndCompare b [] = - 1)
   \<and> (a \<noteq> [] \<and> b \<noteq> []
        \<longrightarrow> StartCompare a b = lex_cmp a b \<and> EndCompare a b = lex_cmp a b)"
  by (simp add: StartCompare_def EndCompare_def bytes_Compare_lex_cmp)

theorem StartCompare_EndCompare_order_witness:
  "StartCompare [] [0] = - 1 \<and> EndCompare [] [0] = 1
   \<and> StartCompare [0] [] = 1 \<and> EndCompare [0] [] = - 1
   \<and> StartCompare [1, 2] [0] = 1 \<and> EndCompare [1, 2] [0] = 1
   \<and> lex_cmp [1, 2] [0] = 1"
  using StartCompare_EndCompare_order [of "[0]" "[1, 2]"]
  by (simp add: lex_cmp_def)

section \<open>Properties of the resume command\<close>

lemma digit_val_lower_char:
  assumes "lower_char c \<in> {CHR ''n'', CHR ''o'', CHR ''w''}"
  shows "digit_val c = None"
proof (rule ccontr)
  assume "digit_val c \<noteq> None"
  then have digit: "48 \<le> (of_char c :: int)" "(of_char c :: int) \<le> 57"
    by (auto simp add: digit_val_def Let_def split: if_splits)
  then have "lower_char c = c"
    by (simp add: lower_char_def Let_def)
  with assms have "(of_char c :: int) \<in> {110, 111, 119}"
    by auto
  with digit show False
    by auto
qed

lemma ParseUint_now: "ToLower s = ''now'' \<Longrightarrow> ParseUint s = None"
proof -
  assume now: "ToLower s = ''now''"
  then obtain c cs where s: "s = c # cs" and c: "lower_char c = CHR ''n''"
    by (cases s) (auto simp add: ToLower_def)
  have "digit_val c = None"
    using c by (intro digit_val_lower_char) simp
  then show ?thesis
    by (simp add: ParseUint_def s)
qed

text \<open>
  C7. Once the changefeed and the current TSO have been fetched, a non-empty
  \<open>--overwrite-checkpoint-ts\<close> is treated so: a value that does not parse as an unsigned
  64-bit decimal number, or that is zero, is rejected with the invalid-checkpoint error;
  a number above \<open>ComposeTS\<close> of the fetched timestamp and logical time is rejected with
  the checkpoint-in-future error; any other number becomes the forced checkpoint; and
  \<open>now\<close> (in any case of letters) makes the current TSO the forced checkpoint.
\<close>

theorem validateParams_overwrite_checkpoint:
  assumes info: "getChangefeedInfo api opts = Inr detail"
    and tso: "getTSO api detail = Inr tso"
    and given: "overwriteCheckpointTs opts = ts" "ts \<noteq> []"
    and fetched: "opts2 = opts\<lparr>changefeedDetail := Some detail, currentTso := Some tso\<rparr>"
    and current: "current = ComposeTS (Timestamp tso) (LogicTime tso)"
  shows "(ToLower ts \<noteq> ''now'' \<and> (ParseUint ts = None \<or> ParseUint ts = Some 0)
            \<longrightarrow> validateParams api opts = (Some (ErrCliInvalidCheckpointTs ts), opts2))
       \<and> (ParseUint ts = Some cp \<and> cp \<noteq> 0 \<and> cp > current
            \<longrightarrow> validateParams api opts = (Some (ErrCliCheckpointTsIsInFuture cp), opts2))
       \<and> (ParseUint ts = Some cp \<and> cp \<noteq> 0 \<and> cp \<le> current
            \<longrightarrow> validateParams api opts = (None, opts2\<lparr>checkpointTs := cp\<rparr>))
       \<and> (ToLower ts = ''now''
            \<longrightarrow> validateParams api opts = (None, opts2\<lparr>checkpointTs := current\<rparr>))"
proof -
  have not_now: "ToLower ts \<noteq> ''now''" if "ParseUint ts = Some cp"
    using that ParseUint_now [of ts] by auto
  show ?thesis
    using info tso given fetched current not_now
    by (auto simp add: validateParams_def Let_def)
qed

theorem validateParams_overwrite_checkpoint_witness:
  "validateParams (demo_api \<lparr>Timestamp = 1, LogicTime = 5\<rparr>) (demo_options ''262150'')
     = (Some (ErrCliCheckpointTsIsInFuture 262150),
        (demo_options ''262150'')\<lparr>changefeedDetail := Some \<lparr>UpstreamID = 1, CheckpointTs = 400\<rparr>,
                                  currentTso := Some \<lparr>Timestamp = 1, LogicTime = 5\<rparr>\<rparr>)
   \<and> validateParams (demo_api \<lparr>Timestamp = 1, LogicTime = 5\<rparr>) (demo_options ''262149'')
     = (None,
        (demo_options ''262149'')\<lparr>changefeedDetail := Some \<lparr>UpstreamID = 1, CheckpointTs = 400\<rparr>,
                                  currentTso := Some \<lparr>Timestamp = 1, LogicTime = 5\<rparr>,
                                  checkpointTs := 262149\<rparr>)
   \<and> validateParams (demo_api \<lparr>Timestamp = 1, LogicTime = 5\<rparr>) (demo_options ''0'')
     = (Some (ErrCliInvalidCheckpointTs ''0''),
        (demo_options ''0'')\<lparr>changefeedDetail := Some \<lparr>UpstreamID = 1, CheckpointTs = 400\<rparr>,
                             currentTso := Some \<lparr>Timestamp = 1, LogicTime = 5\<rparr>\<rparr>)
   \<and> validateParams (demo_api \<lparr>Timestamp = 1, LogicTime = 5\<rparr>) (demo_options ''Now'')
     = (None,
        (demo_options ''Now'')\<lparr>changefeedDetail := Some \<lparr>UpstreamID = 1, CheckpointTs = 400\<rparr>,
                               currentTso := Some \<lparr>Timestamp = 1, LogicTime = 5\<rparr>,
                               checkpointTs := 262149\<rparr>)"
proof -
  let ?api = "demo_api \<lparr>Timestamp = 1, LogicTime = 5\<rparr>"
  let ?detail = "\<lparr>UpstreamID = 1, CheckpointTs = 400\<rparr>"
  let ?tso = "\<lparr>Timestamp = 1, LogicTime = 5\<rparr>"
  have info: "getChangefeedInfo ?api (demo_options ts) = Inr ?detail" for ts
    by (simp add: getChangefeedInfo_def demo_api_def)
  have tso: "getTSO ?api ?detail = Inr ?tso"
    by (simp add: getTSO_def demo_api_def)
  have given: "overwriteCheckpointTs (demo_options ts) = ts" for ts
    by (simp add: demo_options_def)
  have current: "ComposeTS 1 5 = 262149"
    by (simp add: ComposeTS_def)
  have p1: "ParseUint ''262150'' = Some 262150"
    by (simp add: ParseUint_def digit_val_def)
  have p2: "ParseUint ''262149'' = Some 262149"
    by (simp add: ParseUint_def digit_val_def)
  have p3: "ParseUint ''0'' = Some 0"
    by (simp add: ParseUint_def digit_val_def)
  have p4: "ToLower ''Now'' = ''now''"
    by (simp add: ToLower_def lower_char_def char_of_def)
  have p5: "ToLower ''0'' \<noteq> ''now''"
    by (simp add: ToLower_def)
  show ?thesis
    using validateParams_overwrite_checkpoint
            [OF info tso given _ refl refl, of "''262150''" 262150]
          validateParams_overwrite_checkpoint
            [OF info tso given _ refl refl, of "''262149''" 262149]
          validateParams_overwrite_checkpoint
            [OF info tso given _ refl refl, of "''0''" 0]
          validateParams_overwrite_checkpoint
            [OF info tso given _ refl refl, of "''Now''" 0]
    by (simp add: current p1 p2 p3 p4 p5)
qed

section \<open>Properties of the balance scheduler\<close>



lemma schedulerGroup_demo_w_group:
  "schedulerGroup demo_deps (demo_scheduler 2 False) (GetAliveNodes demo_deps demo_w_group)
     demo_w_group
   = (2, demo_w_group\<lparr>dw_operators :=
                     [MoveDispatcherOperator (demo_span 1 7 ''n1'') ''n1'' ''n2'',
                      MoveDispatcherOperator (demo_span 2 7 ''n1'') ''n1'' ''n2''],
                   dw_replicating := [demo_span 3 7 ''n1'', demo_span 4 7 ''n1'']\<rparr>)"
  by code_simp

lemma schedulerGroup_demo_w_global:
  "schedulerGroup demo_deps (demo_scheduler 2 False) (GetAliveNodes demo_deps demo_w_global)
     demo_w_global
   = (0, demo_w_global)"
  by code_simp

lemma schedulerGlobal_demo_w_global:
  "schedulerGlobal demo_deps (demo_scheduler 2 False) (GetAliveNodes demo_deps demo_w_global)
     demo_w_global
   = (1, demo_w_global\<lparr>dw_operators :=
                     [MoveDispatcherOperator (demo_span 1 7 ''n1'') ''n1'' ''n2''],
                   dw_replicating := [demo_span 2 8 ''n1'']\<rparr>)"
  by code_simp

lemma demo_stable:
  "OperatorSize demo_deps demo_w_group = 0" "GetAbsentSize demo_deps demo_w_group = 0"
  "OperatorSize demo_deps demo_w_global = 0" "GetAbsentSize demo_deps demo_w_global = 0"
  by (simp_all add: demo_deps_def demo_w_group_def demo_w_global_def)

text \<open>
  C2. When an operator is in flight or a span is absent, \<open>Execute\<close> leaves the scheduler
  and the world as they were, so no operator is added and neither phase runs; it returns
  the next check time: \<open>lastRebalanceTime + checkBalanceInterval\<close> when it is still
  waiting, \<open>now + checkBalanceInterval\<close> otherwise.
\<close>

theorem Execute_unstable_skips:
  assumes "OperatorSize deps w > 0 \<or> GetAbsentSize deps w > 0"
  shows "Execute deps s t1 t2 t3 w
           = (if \<not> forceBalance s \<and> time_Since t1 (lastRebalanceTime s) < checkBalanceInterval s
              then time_Add (lastRebalanceTime s) (checkBalanceInterval s)
              else time_Add t2 (checkBalanceInterval s),
              s, w)"
  using assms by (auto simp add: Execute_def)

theorem Execute_unstable_skips_witness:
  "OperatorSize demo_deps (demo_w_group\<lparr>dw_absent := 1\<rparr>) = 0
   \<and> GetAbsentSize demo_deps (demo_w_group\<lparr>dw_absent := 1\<rparr>) > 0
   \<and> Execute demo_deps (demo_scheduler 2 False) (61 * Second) (61 * Second) (62 * Second)
       (demo_w_group\<lparr>dw_absent := 1\<rparr>)
     = (121 * Second, demo_scheduler 2 False, demo_w_group\<lparr>dw_absent := 1\<rparr>)"
  using Execute_unstable_skips
          [of demo_deps "demo_w_group\<lparr>dw_absent := 1\<rparr>" "demo_scheduler 2 False"
              "61 * Second" "61 * Second" "62 * Second"]
  by (simp add: demo_deps_def demo_w_group_def demo_scheduler_def Second_def
      time_Since_def time_Sub_def time_Add_def maxDuration_def minDuration_def)

text \<open>
  C3. In a tick that reaches the scheduling phases (the wait is over or \<open>forceBalance\<close> is
  set, no operator is in flight, no span is absent), \<open>schedulerGlobal\<close> runs, on the
  world the group phase left, if and only if \<open>schedulerGroup\<close> moved zero spans: then
  the tick ends with the count and the world of \<open>schedulerGlobal\<close>. When the group phase
  moved at least one span the tick ends with the count and the world of the group phase,
  with nothing added to it.
\<close>

theorem Execute_global_iff_group_idle:
  assumes reach: "forceBalance s \<or> checkBalanceInterval s \<le> time_Since t1 (lastRebalanceTime s)"
    and stable: "OperatorSize deps w \<le> 0" "GetAbsentSize deps w \<le> 0"
    and grp: "schedulerGroup deps s (GetAliveNodes deps w) w = (moved, w1)"
    and phases: "r = (if moved = 0 then schedulerGlobal deps s (GetAliveNodes deps w) w1
                      else (moved, w1))"
  shows "Execute deps s t1 t2 t3 w
           = (time_Add t2 (checkBalanceInterval s),
              s\<lparr>forceBalance := (batchSize s \<le> fst r), lastRebalanceTime := t3\<rparr>,
              snd r)"
  using reach stable by (auto simp add: Execute_def Let_def grp phases)

theorem Execute_global_iff_group_idle_witness:
  "Execute demo_deps (demo_scheduler 2 False) (61 * Second) (61 * Second) (62 * Second)
     demo_w_group
     = (121 * Second,
        (demo_scheduler 2 False)\<lparr>forceBalance := True, lastRebalanceTime := 62 * Second\<rparr>,
        demo_w_group\<lparr>dw_operators :=
                       [MoveDispatcherOperator (demo_span 1 7 ''n1'') ''n1'' ''n2'',
                        MoveDispatcherOperator (demo_span 2 7 ''n1'') ''n1'' ''n2''],
                     dw_replicating := [demo_span 3 7 ''n1'', demo_span 4 7 ''n1'']\<rparr>)
   \<and> Execute demo_deps (demo_scheduler 2 False) (61 * Second) (61 * Second) (62 * Second)
       demo_w_global
     = (121 * Second,
        (demo_scheduler 2 False)\<lparr>forceBalance := False, lastRebalanceTime := 62 * Second\<rparr>,
        demo_w_global\<lparr>dw_operators :=
                        [MoveDispatcherOperator (demo_span 1 7 ''n1'') ''n1'' ''n2''],
                      dw_replicating := [demo_span 2 8 ''n1'']\<rparr>)"
proof -
  have reach: "forceBalance (demo_scheduler 2 False)
                 \<or> checkBalanceInterval (demo_scheduler 2 False)
                      \<le> time_Since (61 * Second) (lastRebalanceTime (demo_scheduler 2 False))"
    by (simp add: demo_scheduler_def Second_def time_Since_def time_Sub_def
        maxDuration_def minDuration_def)
  have interval: "time_Add (61 * Second) (checkBalanceInterval (demo_scheduler 2 False))
                    = 121 * Second"
    by (simp add: demo_scheduler_def time_Add_def)
  have batch: "batchSize (demo_scheduler 2 False) = 2"
    by (simp add: demo_scheduler_def)
  show ?thesis
    using Execute_global_iff_group_idle
            [OF reach _ _ schedulerGroup_demo_w_group refl, of "61 * Second" "62 * Second"]
          Execute_global_iff_group_idle
            [OF reach _ _ schedulerGroup_demo_w_global refl, of "61 * Second" "62 * Second"]
    by (simp add: demo_stable schedulerGlobal_demo_w_global interval batch)
qed




end
